theory Spec2Isabelle
  imports Complex_Main "HOL-Library.Word"
begin

section \<open>Data model\<close>

subsection \<open>Pixel grids and channel order\<close>

text \<open>
  \<^verbatim>\<open>np.array(image)\<close> of a PIL image in mode \<^verbatim>\<open>"RGB"\<close> is a
  height by width by 3 array of unsigned bytes. A pixel is the triple of its
  channels 0, 1 and 2; a grid is a list of rows.
\<close>

type_synonym byte = "8 word"
type_synonym pixel = "byte \<times> byte \<times> byte"
type_synonym grid = "pixel list list"

text \<open>
  An array does not say which colour each channel index holds: that is a
  convention between producer and consumer. \<open>read_pixel\<close> gives the colour a
  consumer reads from a stored triple under a convention.
\<close>

datatype channel_order = RGB | BGR

record colour =
  red :: byte
  green :: byte
  blue :: byte

fun read_pixel :: "channel_order \<Rightarrow> pixel \<Rightarrow> colour" where
  "read_pixel RGB (c0, c1, c2) = \<lparr>red = c0, green = c1, blue = c2\<rparr>"
| "read_pixel BGR (c0, c1, c2) = \<lparr>red = c2, green = c1, blue = c0\<rparr>"

definition read_grid :: "channel_order \<Rightarrow> grid \<Rightarrow> colour list list" where
  "read_grid ord g = map (map (read_pixel ord)) g"

text \<open>
  \<^verbatim>\<open>Image.open(...).convert("RGB")\<close> followed by \<^verbatim>\<open>np.array\<close> stores
  the picture in RGB order.
\<close>

definition decoded_order :: channel_order where
  "decoded_order = RGB"

text \<open>
  Modelled from the spec: the channel order the pose model reads its input in.
  The inference library is not part of the repository; the spec gives its
  contract as "given a single RGB pixel grid, return zero-or-one set of body
  landmarks".
\<close>

definition model_input_order :: channel_order where
  "model_input_order = RGB"

text \<open>
  \<^verbatim>\<open>cv2.cvtColor(src, code)\<close> for the two codes that exchange the first
  and the third channel of a three-channel array.
\<close>

datatype conversion_code = COLOR_RGB2BGR | COLOR_BGR2RGB

fun swap_channels :: "pixel \<Rightarrow> pixel" where
  "swap_channels (c0, c1, c2) = (c2, c1, c0)"

fun cvtColor :: "grid \<Rightarrow> conversion_code \<Rightarrow> grid" where
  "cvtColor src COLOR_RGB2BGR = map (map swap_channels) src"
| "cvtColor src COLOR_BGR2RGB = map (map swap_channels) src"

subsection \<open>What the pose model returns\<close>

text \<open>
  A Python float is a finite number, an infinity or a NaN. The adapter never
  computes with these values; it copies them.
\<close>

datatype pyfloat = Finite real | PosInf | NegInf | NaN

record NormalizedLandmark =
  x :: pyfloat
  y :: pyfloat
  z :: pyfloat
  visibility :: pyfloat

record NormalizedLandmarkList =
  landmark :: "NormalizedLandmark list"

text \<open>
  \<^verbatim>\<open>results.pose_landmarks\<close> is \<^verbatim>\<open>None\<close> or a landmark-list message.
\<close>

record pose_results =
  pose_landmarks :: "NormalizedLandmarkList option"

record pose_options =
  static_image_mode :: bool

text \<open>
  The pose model is a parameter of the adapter: \<open>process opts image\<close> stands for
  \<^verbatim>\<open>mp_pose.Pose(**opts).process(image)\<close> on a session opened for this one call.
\<close>

type_synonym pose_model = "pose_options \<Rightarrow> grid \<Rightarrow> pose_results"

text \<open>
  The decoder is a parameter too: \<open>decode image_data\<close> stands for
  \<^verbatim>\<open>np.array(Image.open(io.BytesIO(image_data)).convert("RGB"))\<close>, which raises
  (\<open>Inl\<close>) or yields the pixel grid (\<open>Inr\<close>).
\<close>

type_synonym 'e decoder = "byte list \<Rightarrow> 'e + grid"

subsection \<open>Python values of the response\<close>

text \<open>
  The adapter returns nested dicts and lists. A dict is the list of its
  key/value pairs in insertion order.
\<close>

datatype pyvalue =
    PBool bool
  | PInt int
  | PFloat pyfloat
  | PStr string
  | PList "pyvalue list"
  | PDict "(string \<times> pyvalue) list"

fun dict_keys :: "pyvalue \<Rightarrow> string list" where
  "dict_keys (PDict kvs) = map fst kvs"
| "dict_keys v = []"

fun dict_get :: "pyvalue \<Rightarrow> string \<Rightarrow> pyvalue option" where
  "dict_get (PDict kvs) k = map_of kvs k"
| "dict_get v k = None"

section \<open>The analysis adapter\<close>

text \<open>
  Truth value of \<^verbatim>\<open>results.pose_landmarks\<close> in \<^verbatim>\<open>if not ...\<close>:
  \<^verbatim>\<open>None\<close> is false; a message object defines neither \<^verbatim>\<open>__bool__\<close> nor
  \<^verbatim>\<open>__len__\<close>, so it is true whatever it holds.
\<close>

fun truthy :: "NormalizedLandmarkList option \<Rightarrow> bool" where
  "truthy None = False"
| "truthy (Some msg) = True"

text \<open>The dict literal appended in the body of the loop.\<close>

definition keypoint_record :: "nat \<Rightarrow> NormalizedLandmark \<Rightarrow> pyvalue" where
  "keypoint_record i lm =
     PDict [(''id'', PInt (int i)),
            (''x'', PFloat (x lm)),
            (''y'', PFloat (y lm)),
            (''z'', PFloat (z lm)),
            (''visibility'', PFloat (visibility lm))]"

text \<open>
  \<^verbatim>\<open>for id, landmark in enumerate(...): keypoints.append({...})\<close>: the counter,
  the landmarks still to visit, and the list built so far.
\<close>

fun keypoints_loop :: "nat \<Rightarrow> NormalizedLandmark list \<Rightarrow> pyvalue list \<Rightarrow> pyvalue list" where
  "keypoints_loop i [] keypoints = keypoints"
| "keypoints_loop i (lm # rest) keypoints =
     keypoints_loop (Suc i) rest (keypoints @ [keypoint_record i lm])"

definition no_pose_detected :: pyvalue where
  "no_pose_detected = PDict [(''success'', PBool False), (''message'', PStr ''No pose detected'')]"

definition success_result :: "pyvalue list \<Rightarrow> pyvalue" where
  "success_result keypoints = PDict [(''success'', PBool True), (''keypoints'', PList keypoints)]"

text \<open>
  What the adapter can raise: the decoder's exception, passed on as it is, and
  the \<^verbatim>\<open>AttributeError\<close> of reading \<^verbatim>\<open>.landmark\<close> from \<^verbatim>\<open>None\<close>.
\<close>

datatype 'e py_exception = DecodingError 'e | AttributeError

definition analyze_pose :: "'e decoder \<Rightarrow> pose_model \<Rightarrow> byte list \<Rightarrow> 'e py_exception + pyvalue" where
  "analyze_pose decode process image_data =
     (case decode image_data of
        Inl err \<Rightarrow> Inl (DecodingError err)
      | Inr image_np \<Rightarrow>
          (let results = process \<lparr>static_image_mode = True\<rparr> (cvtColor image_np COLOR_RGB2BGR)
           in if \<not> truthy (pose_landmarks results)
              then Inr no_pose_detected
              else (case pose_landmarks results of
                      None \<Rightarrow> Inl AttributeError
                    | Some msg \<Rightarrow> Inr (success_result (keypoints_loop 0 (landmark msg) [])))))"

section \<open>The HTTP route\<close>

record UploadFile =
  filename :: string
  file_bytes :: "byte list"

text \<open>\<^verbatim>\<open>await file.read()\<close> with no size: the whole upload.\<close>

definition read :: "UploadFile \<Rightarrow> byte list" where
  "read upload = file_bytes upload"

definition analyze_image :: "'e decoder \<Rightarrow> pose_model \<Rightarrow> UploadFile \<Rightarrow> 'e py_exception + pyvalue" where
  "analyze_image decode process upload =
     (let contents = read upload;
          result = analyze_pose decode process contents
      in result)"

text \<open>
  Modelled from the spec: what the web framework, which is not part of the
  repository, makes of the route function's outcome. A returned structure is
  the response body "with a success status"; an exception "propagates as an
  unhandled server error".
\<close>

datatype http_response = JSONResponse nat pyvalue | InternalServerError nat

definition post_analyze_image :: "'e decoder \<Rightarrow> pose_model \<Rightarrow> UploadFile \<Rightarrow> http_response" where
  "post_analyze_image decode process upload =
     (case analyze_image decode process upload of
        Inr result \<Rightarrow> JSONResponse 200 result
      | Inl err \<Rightarrow> InternalServerError 500)"

section \<open>Observations on results\<close>

text \<open>The fields the properties below speak about, read from a returned value.\<close>

definition success_tag :: "pyvalue \<Rightarrow> pyvalue option" where
  "success_tag v = dict_get v ''success''"

definition keypoint_count :: "pyvalue \<Rightarrow> nat option" where
  "keypoint_count v =
     (case dict_get v ''keypoints'' of
        Some (PList kps) \<Rightarrow> Some (length kps)
      | _ \<Rightarrow> None)"

definition keypoint_ids :: "pyvalue \<Rightarrow> pyvalue option list option" where
  "keypoint_ids v =
     (case dict_get v ''keypoints'' of
        Some (PList kps) \<Rightarrow> Some (map (\<lambda>kp. dict_get kp ''id'') kps)
      | _ \<Rightarrow> None)"

text \<open>Presence and number of the landmarks in what the model returned.\<close>

definition landmark_count :: "pose_results \<Rightarrow> nat option" where
  "landmark_count results = map_option (\<lambda>msg. length (landmark msg)) (pose_landmarks results)"

text \<open>The two shapes of a returned value.\<close>

fun is_keypoint_record :: "pyvalue \<Rightarrow> bool" where
  "is_keypoint_record (PDict kvs) = (map fst kvs = [''id'', ''x'', ''y'', ''z'', ''visibility''])"
| "is_keypoint_record v = False"

definition success_shape :: "pyvalue \<Rightarrow> bool" where
  "success_shape v =
     (case dict_get v ''keypoints'' of
        Some (PList kps) \<Rightarrow> v = success_result kps \<and> list_all is_keypoint_record kps
      | _ \<Rightarrow> False)"

definition failure_shape :: "pyvalue \<Rightarrow> bool" where
  "failure_shape v = (v = no_pose_detected)"

text \<open>Ranges of the numeric fields.\<close>

fun in_unit_interval :: "pyfloat \<Rightarrow> bool" where
  "in_unit_interval (Finite r) = (0 \<le> r \<and> r \<le> 1)"
| "in_unit_interval v = False"

fun is_finite :: "pyfloat \<Rightarrow> bool" where
  "is_finite (Finite r) = True"
| "is_finite v = False"

fun float_field :: "(pyfloat \<Rightarrow> bool) \<Rightarrow> pyvalue option \<Rightarrow> bool" where
  "float_field P (Some (PFloat f)) = P f"
| "float_field P v = False"

definition keypoint_in_range :: "pyvalue \<Rightarrow> bool" where
  "keypoint_in_range kp =
     (float_field in_unit_interval (dict_get kp ''x'') \<and>
      float_field in_unit_interval (dict_get kp ''y'') \<and>
      float_field in_unit_interval (dict_get kp ''visibility'') \<and>
      float_field is_finite (dict_get kp ''z''))"

definition landmark_in_range :: "NormalizedLandmark \<Rightarrow> bool" where
  "landmark_in_range lm =
     (in_unit_interval (x lm) \<and> in_unit_interval (y lm) \<and>
      in_unit_interval (visibility lm) \<and> is_finite (z lm))"

section \<open>Concrete inputs\<close>

text \<open>
  Stand-ins for the two libraries, used to run the adapter on concrete inputs.
  The decoder knows one format only: a binary PPM file of one pixel, the header
  \<^verbatim>\<open>P6\n1 1\n255\n\<close> followed by the three bytes of the pixel.
\<close>

datatype pil_error = UnidentifiedImageError

definition ppm_header :: "byte list" where
  "ppm_header = [0x50, 0x36, 0x0A, 0x31, 0x20, 0x31, 0x0A, 0x32, 0x35, 0x35, 0x0A]"

definition decode_ppm_1x1 :: "pil_error decoder" where
  "decode_ppm_1x1 image_data =
     (if length image_data = 14 \<and> take 11 image_data = ppm_header
      then Inr [[(image_data ! 11, image_data ! 12, image_data ! 13)]]
      else Inl UnidentifiedImageError)"

definition red_ppm :: "byte list" where
  "red_ppm = ppm_header @ [255, 0, 0]"

definition garbage :: "byte list" where
  "garbage = [0x47, 0x41, 0x52]"

text \<open>A model that finds nobody, and one that returns a message with no landmark.\<close>

definition blind_model :: pose_model where
  "blind_model opts img = \<lparr>pose_landmarks = None\<rparr>"

definition empty_model :: pose_model where
  "empty_model opts img = \<lparr>pose_landmarks = Some \<lparr>landmark = []\<rparr>\<rparr>"

text \<open>
  A model that reports what it reads: one landmark whose x, y and z are the red,
  green and blue levels of the top-left pixel, read in the order the model
  expects.
\<close>

definition level :: "byte \<Rightarrow> pyfloat" where
  "level c = Finite (real (unat c) / 255)"

definition probe_model :: pose_model where
  "probe_model opts img =
     (case img of
        (p # row) # rows \<Rightarrow>
          \<lparr>pose_landmarks = Some \<lparr>landmark =
             [\<lparr>x = level (red (read_pixel model_input_order p)),
               y = level (green (read_pixel model_input_order p)),
               z = level (blue (read_pixel model_input_order p)),
               visibility = Finite 1\<rparr>]\<rparr>\<rparr>
      | _ \<Rightarrow> \<lparr>pose_landmarks = None\<rparr>)"

text \<open>Two landmarks inside the picture; the second model moves them a little.\<close>

definition nose :: NormalizedLandmark where
  "nose = \<lparr>x = Finite (1/2), y = Finite (1/4), z = Finite (-1/8), visibility = Finite 1\<rparr>"

definition left_eye :: NormalizedLandmark where
  "left_eye = \<lparr>x = Finite (5/8), y = Finite (1/8), z = Finite (-1/4), visibility = Finite (3/4)\<rparr>"

definition two_point_model :: pose_model where
  "two_point_model opts img = \<lparr>pose_landmarks = Some \<lparr>landmark = [nose, left_eye]\<rparr>\<rparr>"

definition other_version_model :: pose_model where
  "other_version_model opts img =
     \<lparr>pose_landmarks = Some \<lparr>landmark = [left_eye, nose\<lparr>visibility := Finite (1/2)\<rparr>]\<rparr>\<rparr>"

text \<open>A landmark estimated to the right of the picture's edge.\<close>

definition off_frame :: NormalizedLandmark where
  "off_frame = \<lparr>x = Finite (3/2), y = Finite (1/2), z = Finite 0, visibility = Finite (1/4)\<rparr>"

definition off_frame_model :: pose_model where
  "off_frame_model opts img = \<lparr>pose_landmarks = Some \<lparr>landmark = [off_frame]\<rparr>\<rparr>"

text \<open>The full schema: 33 landmarks.\<close>

definition full_body_model :: pose_model where
  "full_body_model opts img = \<lparr>pose_landmarks = Some \<lparr>landmark = replicate 33 nose\<rparr>\<rparr>"

definition upload_of :: "byte list \<Rightarrow> UploadFile" where
  "upload_of image_data = \<lparr>filename = ''upload'', file_bytes = image_data\<rparr>"

section \<open>Facts about the adapter\<close>

subsection \<open>The loop\<close>

lemma keypoints_loop_enumerate:
  "keypoints_loop i lms acc = acc @ map (\<lambda>(k, lm). keypoint_record k lm) (enumerate i lms)"
  by (induction lms arbitrary: i acc) simp_all

lemma length_keypoints_loop:
  "length (keypoints_loop i lms acc) = length acc + length lms"
  by (simp add: keypoints_loop_enumerate)

lemma nth_keypoints_loop:
  "k < length lms \<Longrightarrow> keypoints_loop 0 lms [] ! k = keypoint_record k (lms ! k)"
  by (simp add: keypoints_loop_enumerate nth_enumerate_eq)

subsection \<open>The three ways through \<open>analyze_pose\<close>\<close>

lemma analyze_pose_undecodable:
  "decode image_data = Inl err \<Longrightarrow>
   analyze_pose decode process image_data = Inl (DecodingError err)"
  by (simp add: analyze_pose_def)

lemma analyze_pose_None:
  "decode image_data = Inr image_np \<Longrightarrow>
   pose_landmarks (process \<lparr>static_image_mode = True\<rparr> (cvtColor image_np COLOR_RGB2BGR)) = None \<Longrightarrow>
   analyze_pose decode process image_data = Inr no_pose_detected"
  by (simp add: analyze_pose_def)

lemma analyze_pose_Some:
  "decode image_data = Inr image_np \<Longrightarrow>
   pose_landmarks (process \<lparr>static_image_mode = True\<rparr> (cvtColor image_np COLOR_RGB2BGR)) = Some msg \<Longrightarrow>
   analyze_pose decode process image_data =
     Inr (success_result (keypoints_loop 0 (landmark msg) []))"
  by (simp add: analyze_pose_def)

text \<open>Conversely, a returned value came through the second or the third way.\<close>

lemma analyze_pose_returns:
  assumes "analyze_pose decode process image_data = Inr v"
  obtains image_np where "decode image_data = Inr image_np"
    and "pose_landmarks (process \<lparr>static_image_mode = True\<rparr> (cvtColor image_np COLOR_RGB2BGR)) = None"
    and "v = no_pose_detected"
  | image_np msg where "decode image_data = Inr image_np"
    and "pose_landmarks (process \<lparr>static_image_mode = True\<rparr> (cvtColor image_np COLOR_RGB2BGR)) = Some msg"
    and "v = success_result (keypoints_loop 0 (landmark msg) [])"
  using assms
  by (auto simp: analyze_pose_def Let_def split: sum.splits option.splits if_splits)

subsection \<open>The concrete inputs\<close>

lemma decode_red_ppm: "decode_ppm_1x1 red_ppm = Inr [[(255, 0, 0)]]"
  by (simp add: decode_ppm_1x1_def red_ppm_def ppm_header_def)

lemma decode_garbage: "decode_ppm_1x1 garbage = Inl UnidentifiedImageError"
  by (simp add: decode_ppm_1x1_def garbage_def)

lemma decode_no_bytes: "decode_ppm_1x1 [] = Inl UnidentifiedImageError"
  by (simp add: decode_ppm_1x1_def)

subsection \<open>The records\<close>

lemma dict_get_keypoint_record:
  "dict_get (keypoint_record k lm) ''id'' = Some (PInt (int k))"
  "dict_get (keypoint_record k lm) ''x'' = Some (PFloat (x lm))"
  "dict_get (keypoint_record k lm) ''y'' = Some (PFloat (y lm))"
  "dict_get (keypoint_record k lm) ''z'' = Some (PFloat (z lm))"
  "dict_get (keypoint_record k lm) ''visibility'' = Some (PFloat (visibility lm))"
  by (simp_all add: keypoint_record_def)

lemma dict_keys_keypoint_record:
  "dict_keys (keypoint_record k lm) = [''id'', ''x'', ''y'', ''z'', ''visibility'']"
  by (simp add: keypoint_record_def)

lemma is_keypoint_record_keypoint_record: "is_keypoint_record (keypoint_record k lm)"
  by (simp add: keypoint_record_def)

lemma ids_keypoints_loop:
  "map (\<lambda>kp. dict_get kp ''id'') (keypoints_loop 0 lms []) = map (\<lambda>k. Some (PInt (int k))) [0..<length lms]"
  by (rule nth_equalityI) (simp_all add: length_keypoints_loop nth_keypoints_loop dict_get_keypoint_record)

lemma distinct_ids: "distinct (map (\<lambda>k. Some (PInt (int k))) [0..<n])"
  by (simp add: distinct_map inj_on_def)

lemma upto_33: "map int [0..<33] = [0..32]"
  by (simp add: upto.simps upt_conv_Cons)

subsection \<open>Runs on the concrete inputs\<close>

lemma run_full_body:
  "analyze_pose decode_ppm_1x1 full_body_model red_ppm =
     Inr (success_result (keypoints_loop 0 (replicate 33 nose) []))"
  using analyze_pose_Some [of decode_ppm_1x1 red_ppm "[[(255, 0, 0)]]" full_body_model
      "\<lparr>landmark = replicate 33 nose\<rparr>"]
  by (simp add: decode_red_ppm full_body_model_def)

lemma run_two_point:
  "analyze_pose decode_ppm_1x1 two_point_model red_ppm =
     Inr (success_result [keypoint_record 0 nose, keypoint_record 1 left_eye])"
  using analyze_pose_Some [of decode_ppm_1x1 red_ppm "[[(255, 0, 0)]]" two_point_model
      "\<lparr>landmark = [nose, left_eye]\<rparr>"]
  by (simp add: decode_red_ppm two_point_model_def)

subsection \<open>Shapes, ranges, channels and further runs\<close>

lemma run_blind:
  "analyze_pose decode_ppm_1x1 blind_model red_ppm = Inr no_pose_detected"
  using analyze_pose_None [of decode_ppm_1x1 red_ppm "[[(255, 0, 0)]]" blind_model]
  by (simp add: decode_red_ppm blind_model_def)

lemma list_all_record_enumerate:
  "list_all is_keypoint_record (map (\<lambda>(k, lm). keypoint_record k lm) (enumerate i lms))"
  by (induction lms arbitrary: i) (simp_all add: is_keypoint_record_keypoint_record)

lemma list_all_keypoints_loop:
  "list_all is_keypoint_record (keypoints_loop i lms [])"
  by (simp add: keypoints_loop_enumerate list_all_record_enumerate)

lemma success_shape_success_result:
  "success_shape (success_result kps) = list_all is_keypoint_record kps"
  by (simp add: success_shape_def success_result_def)

lemma keypoint_in_range_keypoint_record:
  "keypoint_in_range (keypoint_record k lm) = landmark_in_range lm"
  by (simp add: keypoint_in_range_def landmark_in_range_def dict_get_keypoint_record)

lemma list_all_in_range_enumerate:
  "list_all keypoint_in_range (map (\<lambda>(k, lm). keypoint_record k lm) (enumerate i lms)) =
   list_all landmark_in_range lms"
  by (induction lms arbitrary: i) (simp_all add: keypoint_in_range_keypoint_record)

lemma list_all_in_range_keypoints_loop:
  "list_all keypoint_in_range (keypoints_loop i lms []) = list_all landmark_in_range lms"
  by (simp add: keypoints_loop_enumerate list_all_in_range_enumerate)

lemma run_off_frame:
  "analyze_pose decode_ppm_1x1 off_frame_model red_ppm = Inr (success_result [keypoint_record 0 off_frame])"
  using analyze_pose_Some [of decode_ppm_1x1 red_ppm "[[(255, 0, 0)]]" off_frame_model
      "\<lparr>landmark = [off_frame]\<rparr>"]
  by (simp add: decode_red_ppm off_frame_model_def)

lemma observations_success_result:
  "success_tag (success_result kps) = Some (PBool True)"
  "keypoint_count (success_result kps) = Some (length kps)"
  "keypoint_ids (success_result kps) = Some (map (\<lambda>kp. dict_get kp ''id'') kps)"
  by (simp_all add: success_tag_def keypoint_count_def keypoint_ids_def success_result_def)

lemma observations_no_pose_detected:
  "success_tag no_pose_detected = Some (PBool False)"
  "keypoint_count no_pose_detected = None"
  "keypoint_ids no_pose_detected = None"
  by (simp_all add: success_tag_def keypoint_count_def keypoint_ids_def no_pose_detected_def)

lemma run_other_version:
  "analyze_pose decode_ppm_1x1 other_version_model red_ppm =
     Inr (success_result [keypoint_record 0 left_eye, keypoint_record 1 (nose\<lparr>visibility := Finite (1/2)\<rparr>)])"
  using analyze_pose_Some [of decode_ppm_1x1 red_ppm "[[(255, 0, 0)]]" other_version_model
      "\<lparr>landmark = [left_eye, nose\<lparr>visibility := Finite (1/2)\<rparr>]\<rparr>"]
  by (simp add: decode_red_ppm other_version_model_def)

lemma read_pixel_swap_channels:
  "read_pixel BGR (swap_channels p) = read_pixel RGB p"
  "read_pixel RGB (swap_channels p) = read_pixel BGR p"
  by (cases p; simp)+

lemma read_grid_cvtColor:
  "read_grid BGR (cvtColor g COLOR_RGB2BGR) = read_grid RGB g"
  "read_grid RGB (cvtColor g COLOR_RGB2BGR) = read_grid BGR g"
  by (simp_all add: read_grid_def read_pixel_swap_channels)

section \<open>The properties\<close>

text \<open>
  C2. When the bytes decode and the model finds no body landmarks
  (\<^verbatim>\<open>pose_landmarks\<close> is \<^verbatim>\<open>None\<close>), \<open>analyze_pose\<close> returns, and what it
  returns is exactly the two-field dict with \<^verbatim>\<open>success\<close> false and the
  message \<^verbatim>\<open>No pose detected\<close>.
\<close>

theorem analyze_pose_no_pose_detected:
  assumes "decode image_data = Inr image_np"
    and "pose_landmarks (process \<lparr>static_image_mode = True\<rparr> (cvtColor image_np COLOR_RGB2BGR)) = None"
  shows "analyze_pose decode process image_data =
           Inr (PDict [(''success'', PBool False), (''message'', PStr ''No pose detected'')])"
  using assms by (simp add: analyze_pose_None no_pose_detected_def)

theorem analyze_pose_no_pose_detected_witness:
  "analyze_pose decode_ppm_1x1 blind_model red_ppm =
     Inr (PDict [(''success'', PBool False), (''message'', PStr ''No pose detected'')])"
  using analyze_pose_no_pose_detected [of decode_ppm_1x1 red_ppm "[[(255, 0, 0)]]" blind_model]
  by (simp add: decode_red_ppm blind_model_def)

text \<open>
  C4. When the decoder raises on the bytes, \<open>analyze_pose\<close> raises that same
  error and returns nothing; the route, given an upload of those bytes, raises
  it too, and the request ends in a server error, never in a JSON body.
\<close>

theorem undecodable_bytes_server_error:
  assumes "decode image_data = Inl err"
  shows "analyze_pose decode process image_data = Inl (DecodingError err) \<and>
         (\<forall>upload. file_bytes upload = image_data \<longrightarrow>
            analyze_image decode process upload = Inl (DecodingError err) \<and>
            post_analyze_image decode process upload = InternalServerError 500 \<and>
            (\<forall>status body. post_analyze_image decode process upload \<noteq> JSONResponse status body))"
  using assms
  by (simp add: analyze_pose_undecodable analyze_image_def read_def post_analyze_image_def)

theorem undecodable_bytes_server_error_witness:
  "analyze_pose decode_ppm_1x1 two_point_model garbage = Inl (DecodingError UnidentifiedImageError) \<and>
   analyze_image decode_ppm_1x1 two_point_model (upload_of garbage) =
     Inl (DecodingError UnidentifiedImageError) \<and>
   post_analyze_image decode_ppm_1x1 two_point_model (upload_of garbage) = InternalServerError 500 \<and>
   post_analyze_image decode_ppm_1x1 two_point_model (upload_of []) = InternalServerError 500"
  using undecodable_bytes_server_error [of decode_ppm_1x1 garbage UnidentifiedImageError two_point_model]
    undecodable_bytes_server_error [of decode_ppm_1x1 "[]" UnidentifiedImageError two_point_model]
  by (simp add: decode_garbage decode_no_bytes upload_of_def)

text \<open>
  C3. In every success result the keypoint records are as many as the model's
  landmarks, the k-th record is the one built from the k-th landmark and its
  \<^verbatim>\<open>id\<close> is k, so the ids are pairwise different; with 33 landmarks the ids
  are 0, 1, ..., 32 in this order.
\<close>

theorem keypoint_ids_positional:
  assumes "analyze_pose decode process image_data = Inr v"
    and "dict_get v ''success'' = Some (PBool True)"
  shows "\<exists>kps image_np msg.
           dict_get v ''keypoints'' = Some (PList kps) \<and>
           decode image_data = Inr image_np \<and>
           pose_landmarks (process \<lparr>static_image_mode = True\<rparr> (cvtColor image_np COLOR_RGB2BGR)) = Some msg \<and>
           length kps = length (landmark msg) \<and>
           (\<forall>k<length kps. dict_get (kps ! k) ''id'' = Some (PInt (int k)) \<and>
                             kps ! k = keypoint_record k (landmark msg ! k)) \<and>
           distinct (map (\<lambda>kp. dict_get kp ''id'') kps) \<and>
           (length (landmark msg) = 33 \<longrightarrow>
              map (\<lambda>kp. dict_get kp ''id'') kps = map (\<lambda>k. Some (PInt k)) [0..32])"
  using assms(1)
proof (cases rule: analyze_pose_returns)
  case (1 image_np)
  with assms(2) show ?thesis by (simp add: no_pose_detected_def)
next
  case (2 image_np msg)
  let ?kps = "keypoints_loop 0 (landmark msg) []"
  have ids: "map (\<lambda>kp. dict_get kp ''id'') ?kps = map (\<lambda>k. Some (PInt (int k))) [0..<length (landmark msg)]"
    by (rule ids_keypoints_loop)
  have "dict_get v ''keypoints'' = Some (PList ?kps)"
    using 2 by (simp add: success_result_def)
  moreover have "length ?kps = length (landmark msg)"
    by (simp add: length_keypoints_loop)
  moreover have "\<forall>k<length ?kps. dict_get (?kps ! k) ''id'' = Some (PInt (int k)) \<and>
                    ?kps ! k = keypoint_record k (landmark msg ! k)"
    by (simp add: length_keypoints_loop nth_keypoints_loop dict_get_keypoint_record)
  moreover have "distinct (map (\<lambda>kp. dict_get kp ''id'') ?kps)"
    by (simp only: ids distinct_ids)
  moreover have "length (landmark msg) = 33 \<longrightarrow>
      map (\<lambda>kp. dict_get kp ''id'') ?kps = map (\<lambda>k. Some (PInt k)) [0..32]"
  proof
    assume "length (landmark msg) = 33"
    then have "map (\<lambda>kp. dict_get kp ''id'') ?kps = map (\<lambda>k. Some (PInt (int k))) [0..<33]"
      using ids by simp
    also have "\<dots> = map (\<lambda>k. Some (PInt k)) (map int [0..<33])"
      by (simp only: map_map o_def)
    finally show "map (\<lambda>kp. dict_get kp ''id'') ?kps = map (\<lambda>k. Some (PInt k)) [0..32]"
      by (simp only: upto_33)
  qed
  ultimately show ?thesis using 2(1,2) by blast
qed


theorem keypoint_ids_positional_witness:
  "analyze_pose decode_ppm_1x1 full_body_model red_ppm =
     Inr (success_result (keypoints_loop 0 (replicate 33 nose) [])) \<and>
   keypoint_ids (success_result (keypoints_loop 0 (replicate 33 nose) [])) =
     Some (map (\<lambda>k. Some (PInt k)) [0..32])"
proof -
  let ?v = "success_result (keypoints_loop 0 (replicate 33 nose) [])"
  have tag: "dict_get ?v ''success'' = Some (PBool True)"
    by (simp add: success_result_def)
  from keypoint_ids_positional [OF run_full_body tag]
  obtain kps image_np msg where kps: "dict_get ?v ''keypoints'' = Some (PList kps)"
    and "decode_ppm_1x1 red_ppm = Inr image_np"
    and "pose_landmarks (full_body_model \<lparr>static_image_mode = True\<rparr> (cvtColor image_np COLOR_RGB2BGR)) = Some msg"
    and "length (landmark msg) = 33 \<longrightarrow>
           map (\<lambda>kp. dict_get kp ''id'') kps = map (\<lambda>k. Some (PInt k)) [0..32]"
    by blast
  then have "map (\<lambda>kp. dict_get kp ''id'') kps = map (\<lambda>k. Some (PInt k)) [0..32]"
    by (auto simp: full_body_model_def)
  with kps have "keypoint_ids ?v = Some (map (\<lambda>k. Some (PInt k)) [0..32])"
    by (simp add: keypoint_ids_def)
  with run_full_body show ?thesis by simp
qed

text \<open>
  C5. For the k-th landmark the model returns, the x, y, z and visibility of
  the k-th keypoint record of the success result are the very values of that
  landmark.
\<close>

theorem landmark_values_copied:
  assumes "decode image_data = Inr image_np"
    and "pose_landmarks (process \<lparr>static_image_mode = True\<rparr> (cvtColor image_np COLOR_RGB2BGR)) = Some msg"
    and "k < length (landmark msg)"
  shows "\<exists>kps. analyze_pose decode process image_data =
                  Inr (PDict [(''success'', PBool True), (''keypoints'', PList kps)]) \<and>
               length kps = length (landmark msg) \<and>
               dict_get (kps ! k) ''x'' = Some (PFloat (x (landmark msg ! k))) \<and>
               dict_get (kps ! k) ''y'' = Some (PFloat (y (landmark msg ! k))) \<and>
               dict_get (kps ! k) ''z'' = Some (PFloat (z (landmark msg ! k))) \<and>
               dict_get (kps ! k) ''visibility'' = Some (PFloat (visibility (landmark msg ! k)))"
proof -
  let ?kps = "keypoints_loop 0 (landmark msg) []"
  have "analyze_pose decode process image_data =
          Inr (PDict [(''success'', PBool True), (''keypoints'', PList ?kps)])"
    using assms(1,2) by (simp add: analyze_pose_Some success_result_def)
  moreover have "length ?kps = length (landmark msg)"
    by (simp add: length_keypoints_loop)
  moreover have "?kps ! k = keypoint_record k (landmark msg ! k)"
    using assms(3) by (rule nth_keypoints_loop)
  ultimately show ?thesis
    by (simp add: dict_get_keypoint_record)
qed

theorem landmark_values_copied_witness:
  "\<exists>kps. analyze_pose decode_ppm_1x1 two_point_model red_ppm =
            Inr (PDict [(''success'', PBool True), (''keypoints'', PList kps)]) \<and>
         length kps = 2 \<and>
         dict_get (kps ! 1) ''x'' = Some (PFloat (Finite (5/8))) \<and>
         dict_get (kps ! 1) ''y'' = Some (PFloat (Finite (1/8))) \<and>
         dict_get (kps ! 1) ''z'' = Some (PFloat (Finite (-1/4))) \<and>
         dict_get (kps ! 1) ''visibility'' = Some (PFloat (Finite (3/4)))"
  using landmark_values_copied [of decode_ppm_1x1 red_ppm "[[(255, 0, 0)]]" two_point_model
      "\<lparr>landmark = [nose, left_eye]\<rparr>" 1]
  by (simp add: decode_red_ppm two_point_model_def left_eye_def numeral_2_eq_2)

text \<open>
  C10. When the model returns a landmark message that holds no landmark,
  \<open>analyze_pose\<close> returns the success variant with an empty keypoints list, not
  the "No pose detected" value.
\<close>

theorem empty_landmark_list_is_success:
  assumes "decode image_data = Inr image_np"
    and "pose_landmarks (process \<lparr>static_image_mode = True\<rparr> (cvtColor image_np COLOR_RGB2BGR)) = Some msg"
    and "landmark msg = []"
  shows "analyze_pose decode process image_data =
           Inr (PDict [(''success'', PBool True), (''keypoints'', PList [])]) \<and>
         analyze_pose decode process image_data \<noteq> Inr no_pose_detected"
  using assms by (simp add: analyze_pose_Some success_result_def no_pose_detected_def)

theorem empty_landmark_list_is_success_witness:
  "analyze_pose decode_ppm_1x1 empty_model red_ppm =
     Inr (PDict [(''success'', PBool True), (''keypoints'', PList [])]) \<and>
   analyze_pose decode_ppm_1x1 empty_model red_ppm \<noteq> Inr no_pose_detected"
  using empty_landmark_list_is_success [of decode_ppm_1x1 red_ppm "[[(255, 0, 0)]]" empty_model "\<lparr>landmark = []\<rparr>"]
  by (simp add: decode_red_ppm empty_model_def no_pose_detected_def)

text \<open>
  C1. The adapter on a one-pixel picture that is pure red. The decoded grid
  holds red in channel 0; the grid handed to the model holds it in channel 2,
  and a model that reads its input in RGB order, as the pose model does, reads
  a pure blue pixel: the landmark it reports has x (red) 0 and z (blue) 1.
\<close>

theorem model_reads_swapped_channels:
  "analyze_pose decode_ppm_1x1 probe_model red_ppm =
     Inr (success_result [keypoint_record 0
            \<lparr>x = Finite 0, y = Finite 0, z = Finite 1, visibility = Finite 1\<rparr>]) \<and>
   decode_ppm_1x1 red_ppm = Inr [[(255, 0, 0)]] \<and>
   read_grid decoded_order [[(255, 0, 0)]] = [[\<lparr>red = 255, green = 0, blue = 0\<rparr>]] \<and>
   read_grid model_input_order (cvtColor [[(255, 0, 0)]] COLOR_RGB2BGR) =
     [[\<lparr>red = 0, green = 0, blue = 255\<rparr>]]"
  by (simp add: analyze_pose_def decode_red_ppm probe_model_def model_input_order_def
        decoded_order_def level_def read_grid_def)

text \<open>
  C6. The route hands the whole of the upload's bytes, unchanged, to
  \<open>analyze_pose\<close> and returns what it returned; when that is a value, either
  variant, the response is that value with status 200.
\<close>

theorem route_returns_adapter_result:
  "analyze_image decode process upload = analyze_pose decode process (file_bytes upload) \<and>
   (\<forall>result. analyze_pose decode process (file_bytes upload) = Inr result \<longrightarrow>
      post_analyze_image decode process upload = JSONResponse 200 result)"
  by (simp add: analyze_image_def read_def post_analyze_image_def)

theorem route_returns_adapter_result_witness:
  "post_analyze_image decode_ppm_1x1 two_point_model (upload_of red_ppm) =
     JSONResponse 200 (success_result [keypoint_record 0 nose, keypoint_record 1 left_eye]) \<and>
   post_analyze_image decode_ppm_1x1 blind_model (upload_of red_ppm) =
     JSONResponse 200 no_pose_detected"
  using route_returns_adapter_result [of decode_ppm_1x1 two_point_model "upload_of red_ppm"]
    route_returns_adapter_result [of decode_ppm_1x1 blind_model "upload_of red_ppm"]
  by (simp add: upload_of_def run_two_point run_blind)

text \<open>
  C7 as stated fails: for a landmark that the model places beyond the right
  edge of the picture (x = 3/2) the success result carries x = 3/2.
\<close>

theorem off_frame_keypoint_out_of_range:
  "analyze_pose decode_ppm_1x1 off_frame_model red_ppm =
     Inr (PDict [(''success'', PBool True),
                 (''keypoints'', PList [PDict [(''id'', PInt 0),
                                               (''x'', PFloat (Finite (3/2))),
                                               (''y'', PFloat (Finite (1/2))),
                                               (''z'', PFloat (Finite 0)),
                                               (''visibility'', PFloat (Finite (1/4)))]])]) \<and>
   \<not> in_unit_interval (Finite (3/2))"
  by (simp add: run_off_frame success_result_def keypoint_record_def off_frame_def)

text \<open>
  C7, as amended. The adapter does not check or clamp the numbers, so the
  ranges of a success result are those of the model's landmarks: every keypoint
  record has x, y and visibility in [0,1] and a finite z exactly when every
  landmark the model returned has.
\<close>

theorem keypoints_in_range_iff_landmarks:
  assumes "decode image_data = Inr image_np"
    and "pose_landmarks (process \<lparr>static_image_mode = True\<rparr> (cvtColor image_np COLOR_RGB2BGR)) = Some msg"
  shows "\<exists>kps. analyze_pose decode process image_data = Inr (success_result kps) \<and>
               (list_all keypoint_in_range kps \<longleftrightarrow> list_all landmark_in_range (landmark msg))"
proof (intro exI conjI)
  show "analyze_pose decode process image_data =
          Inr (success_result (keypoints_loop 0 (landmark msg) []))"
    using assms by (rule analyze_pose_Some)
  show "list_all keypoint_in_range (keypoints_loop 0 (landmark msg) []) \<longleftrightarrow>
          list_all landmark_in_range (landmark msg)"
    by (rule list_all_in_range_keypoints_loop)
qed


theorem keypoints_in_range_iff_landmarks_witness:
  "\<exists>kps. analyze_pose decode_ppm_1x1 two_point_model red_ppm = Inr (success_result kps) \<and>
         list_all keypoint_in_range kps"
  using keypoints_in_range_iff_landmarks [of decode_ppm_1x1 red_ppm "[[(255, 0, 0)]]" two_point_model
      "\<lparr>landmark = [nose, left_eye]\<rparr>"]
  by (simp add: decode_red_ppm two_point_model_def landmark_in_range_def nose_def left_eye_def)

text \<open>
  C8. Two calls on the same decodable bytes; \<open>first_call\<close> and \<open>second_call\<close> are
  what the model does at each. When the model reports, for the grid of these
  bytes, landmarks in the same number at both calls (as it does when it is one
  function of the grid, even if the coordinates differ), both calls return
  values with the same success tag, the same keypoint count and the same
  sequence of ids.
\<close>

theorem repeated_call_same_ids:
  assumes dec: "decode image_data = Inr image_np"
    and same: "landmark_count (first_call \<lparr>static_image_mode = True\<rparr> (cvtColor image_np COLOR_RGB2BGR)) =
               landmark_count (second_call \<lparr>static_image_mode = True\<rparr> (cvtColor image_np COLOR_RGB2BGR))"
  shows "\<exists>v1 v2. analyze_pose decode first_call image_data = Inr v1 \<and>
                 analyze_pose decode second_call image_data = Inr v2 \<and>
                 success_tag v1 = success_tag v2 \<and>
                 keypoint_count v1 = keypoint_count v2 \<and>
                 keypoint_ids v1 = keypoint_ids v2"
proof (cases "pose_landmarks (first_call \<lparr>static_image_mode = True\<rparr> (cvtColor image_np COLOR_RGB2BGR))")
  case None
  with same have "pose_landmarks (second_call \<lparr>static_image_mode = True\<rparr> (cvtColor image_np COLOR_RGB2BGR)) = None"
    by (simp add: landmark_count_def)
  with None dec show ?thesis
    by (simp add: analyze_pose_None)
next
  case (Some msg1)
  with same have "map_option (\<lambda>msg. length (landmark msg))
      (pose_landmarks (second_call \<lparr>static_image_mode = True\<rparr> (cvtColor image_np COLOR_RGB2BGR))) =
      Some (length (landmark msg1))"
    by (simp add: landmark_count_def del: cvtColor.simps)
  then obtain msg2 where
    snd: "pose_landmarks (second_call \<lparr>static_image_mode = True\<rparr> (cvtColor image_np COLOR_RGB2BGR)) = Some msg2"
    and len: "length (landmark msg1) = length (landmark msg2)"
    by (auto simp del: cvtColor.simps)
  have "map (\<lambda>kp. dict_get kp ''id'') (keypoints_loop 0 (landmark msg1) []) =
        map (\<lambda>kp. dict_get kp ''id'') (keypoints_loop 0 (landmark msg2) [])"
    by (simp only: ids_keypoints_loop len)
  with Some snd dec len show ?thesis
    by (simp add: analyze_pose_Some observations_success_result length_keypoints_loop)
qed

theorem repeated_call_same_ids_witness:
  "(\<exists>v1 v2. analyze_pose decode_ppm_1x1 two_point_model red_ppm = Inr v1 \<and>
            analyze_pose decode_ppm_1x1 two_point_model red_ppm = Inr v2 \<and>
            success_tag v1 = success_tag v2 \<and>
            keypoint_count v1 = keypoint_count v2 \<and>
            keypoint_ids v1 = keypoint_ids v2) \<and>
   (\<exists>v1 v2. analyze_pose decode_ppm_1x1 two_point_model red_ppm = Inr v1 \<and>
            analyze_pose decode_ppm_1x1 other_version_model red_ppm = Inr v2 \<and>
            success_tag v1 = success_tag v2 \<and>
            keypoint_count v1 = keypoint_count v2 \<and>
            keypoint_ids v1 = keypoint_ids v2)"
  using repeated_call_same_ids [of decode_ppm_1x1 red_ppm "[[(255, 0, 0)]]" two_point_model two_point_model]
    repeated_call_same_ids [of decode_ppm_1x1 red_ppm "[[(255, 0, 0)]]" two_point_model other_version_model]
  by (simp add: decode_red_ppm landmark_count_def two_point_model_def other_version_model_def)

text \<open>
  C9. A value that \<open>analyze_pose\<close> returns has exactly one of two shapes: the
  success dict, with the keys \<^verbatim>\<open>success\<close> (true) and \<^verbatim>\<open>keypoints\<close> (a list of
  records each with exactly the keys id, x, y, z, visibility) and no
  \<^verbatim>\<open>message\<close>; or the "No pose detected" dict, which has no \<^verbatim>\<open>keypoints\<close>.
\<close>

theorem result_has_one_of_two_shapes:
  assumes "analyze_pose decode process image_data = Inr v"
  shows "(success_shape v \<and> \<not> failure_shape v \<and> ''message'' \<notin> set (dict_keys v)) \<or>
         (failure_shape v \<and> \<not> success_shape v \<and> ''keypoints'' \<notin> set (dict_keys v))"
  using assms
proof (cases rule: analyze_pose_returns)
  case (1 image_np)
  then show ?thesis
    by (simp add: failure_shape_def success_shape_def no_pose_detected_def)
next
  case (2 image_np msg)
  then show ?thesis
    by (simp add: success_shape_success_result list_all_keypoints_loop failure_shape_def)
       (simp add: success_result_def no_pose_detected_def)
qed

theorem result_has_one_of_two_shapes_witness:
  "success_shape (success_result [keypoint_record 0 nose, keypoint_record 1 left_eye]) \<and>
   \<not> failure_shape (success_result [keypoint_record 0 nose, keypoint_record 1 left_eye]) \<and>
   failure_shape no_pose_detected \<and> \<not> success_shape no_pose_detected"
  using result_has_one_of_two_shapes [OF run_two_point] result_has_one_of_two_shapes [OF run_blind]
  by (simp add: failure_shape_def success_result_def no_pose_detected_def)

end
